theory Spec2Isabelle
  imports Main
begin

section \<open>JavaScript values and outcomes\<close>

text \<open>
  The values that \<^verbatim>\<open>lib/hook.js\<close> can observe: file names, option fields, what a
  matcher returns and what a transformer throws. Numbers are restricted to integers;
  \<open>JNum n\<close> is the number nearest to \<open>n\<close>, which is \<open>n\<close> itself for a safe integer.
  An \<open>JError name message stack\<close> is an \<^verbatim>\<open>Error\<close> object with these three strings;
  a \<open>JObject\<close> is an object whose prototype is \<^verbatim>\<open>Object.prototype\<close>, given by its own
  properties, which are data properties with string keys. No value of the model is a
  function, so a property named \<^verbatim>\<open>toString\<close> is never callable.
\<close>

datatype jsval =
    JUndefined
  | JNull
  | JBool bool
  | JNum int
  | JStr string
  | JError string string string
  | JObject "(string \<times> jsval) list"

text \<open>A call either returns a value or throws one (\<^verbatim>\<open>throw v\<close> accepts any value).\<close>

datatype 'a outcome = Returns 'a | Throws jsval

text \<open>ToBoolean, as used by \<^verbatim>\<open>if\<close>, \<^verbatim>\<open>!\<close>, \<^verbatim>\<open>&&\<close> and \<^verbatim>\<open>||\<close>.\<close>

fun truthy :: "jsval \<Rightarrow> bool" where
  "truthy JUndefined = False"
| "truthy JNull = False"
| "truthy (JBool b) = b"
| "truthy (JNum n) = (n \<noteq> 0)"
| "truthy (JStr s) = (s \<noteq> [])"
| "truthy (JError n m st) = True"
| "truthy (JObject ps) = True"

text \<open>The decimal digits of a natural number.\<close>

fun digits :: "nat \<Rightarrow> string" where
  "digits n =
     (if n < 10 then [char_of (48 + n)]
      else digits (n div 10) @ [char_of (48 + n mod 10)])"

declare digits.simps [simp del]

text \<open>
  The host: what Node supplies and the module only calls. \<open>resolve\<close> is
  \<^verbatim>\<open>path.resolve\<close> and \<open>extname\<close> is \<^verbatim>\<open>path.extname\<close>; \<open>nullish_read\<close> is the
  \<^verbatim>\<open>TypeError\<close> object the engine throws when a property of \<^verbatim>\<open>null\<close> or
  \<^verbatim>\<open>undefined\<close> is read, \<open>not_callable\<close> the one it throws when a value that is no
  function is called, and \<open>not_primitive\<close> the one it throws when an object cannot be
  converted to a primitive value (their texts depend on the engine). \<open>number_text\<close> is
  the engine's text of an integer that is not a safe integer. The last two fields are the
  entry points \<^verbatim>\<open>vm.createScript\<close> and \<^verbatim>\<open>vm.runInThisContext\<close> as they were when
  the module was loaded.
\<close>

record host =
  resolve :: "string \<Rightarrow> string"
  extname :: "string \<Rightarrow> string"
  nullish_read :: "jsval \<Rightarrow> string \<Rightarrow> jsval"
  not_callable :: "jsval \<Rightarrow> jsval"
  not_primitive :: "jsval \<Rightarrow> jsval"
  number_text :: "int \<Rightarrow> string"
  originalCreateScript :: "jsval \<Rightarrow> jsval \<Rightarrow> jsval outcome"
  originalRunInThisContext :: "jsval \<Rightarrow> jsval \<Rightarrow> jsval outcome"

text \<open>
  \<^verbatim>\<open>String(v)\<close>, which is also what \<^verbatim>\<open>'...' + v\<close> appends. A safe integer (below
  \<open>2 ^ 53\<close> in magnitude) is written with all its digits. An \<^verbatim>\<open>Error\<close> object goes
  through \<^verbatim>\<open>Error.prototype.toString\<close>. An object with no property \<^verbatim>\<open>toString\<close> of
  its own goes through \<^verbatim>\<open>Object.prototype.toString\<close>; with one, which is not
  callable, the conversion finds no primitive value (\<^verbatim>\<open>valueOf\<close> gives none either)
  and throws.
\<close>

fun String_js :: "host \<Rightarrow> jsval \<Rightarrow> string outcome" where
  "String_js h JUndefined = Returns ''undefined''"
| "String_js h JNull = Returns ''null''"
| "String_js h (JBool b) = Returns (if b then ''true'' else ''false'')"
| "String_js h (JNum n) =
     Returns (if 2 ^ 53 \<le> \<bar>n\<bar> then number_text h n
              else if n < 0 then ''-'' @ digits (nat (- n)) else digits (nat n))"
| "String_js h (JStr s) = Returns s"
| "String_js h (JError n m st) =
     Returns (if n = [] then m else if m = [] then n else n @ '': '' @ m)"
| "String_js h (JObject ps) =
     (if ''toString'' \<in> fst ` set ps then Throws (not_primitive h (JObject ps))
      else Returns ''[object Object]'')"

text \<open>
  Reading property \<open>p\<close> of a value. Only \<^verbatim>\<open>message\<close> and \<^verbatim>\<open>stack\<close> are ever
  read; neither is a property of a primitive's prototype.
\<close>

fun get_prop :: "host \<Rightarrow> jsval \<Rightarrow> string \<Rightarrow> jsval outcome" where
  "get_prop h JUndefined p = Throws (nullish_read h JUndefined p)"
| "get_prop h JNull p = Throws (nullish_read h JNull p)"
| "get_prop h (JBool b) p = Returns JUndefined"
| "get_prop h (JNum n) p = Returns JUndefined"
| "get_prop h (JStr s) p = Returns JUndefined"
| "get_prop h (JError n m st) p =
     Returns (if p = ''name'' then JStr n else if p = ''message'' then JStr m
              else if p = ''stack'' then JStr st else JUndefined)"
| "get_prop h (JObject ps) p =
     Returns (case map_of ps p of None \<Rightarrow> JUndefined | Some v \<Rightarrow> v)"

section \<open>Observable events\<close>

text \<open>
  Every function of the model returns, next to its outcome, the events it caused, in
  order: the lines written with \<^verbatim>\<open>console.error\<close> (each with its arguments) and the
  calls made to the transformer, to the post-load hook, to the two captured entry
  points, to a revert handle, and the code that the module loader finally compiles.
\<close>

datatype event =
    ConsoleError "jsval list"
  | TransformerCall jsval jsval
  | PostLoadHookCall jsval
  | OriginalCreateScriptCall jsval jsval
  | OriginalRunInThisContextCall jsval jsval
  | RevertCall nat
  | LoaderCompile jsval string

type_synonym 'a effect = "'a outcome \<times> event list"

text \<open>
  A matcher is a predicate on a path and has no state (it may throw); a transformer maps
  code and file name to code, or throws. The functions a caller supplies are taken as
  functions of their arguments: their own effects are not part of the model, and they do
  not install or remove hooks while they run.
\<close>

type_synonym matcher = "string \<Rightarrow> jsval outcome"
type_synonym transformer = "jsval \<Rightarrow> jsval \<Rightarrow> jsval outcome"

section \<open>The matching step and the transform step\<close>

text \<open>\<^verbatim>\<open>typeof filename === 'string' && matcher(path.resolve(filename))\<close>\<close>

fun shouldHook :: "host \<Rightarrow> matcher \<Rightarrow> jsval \<Rightarrow> jsval outcome" where
  "shouldHook h matcher (JStr f) = matcher (resolve h f)"
| "shouldHook h matcher filename = Returns (JBool False)"

record transform_result =
  code :: jsval
  changed :: bool

text \<open>
  The line that lines 22 to 24 write when the text of the file name is \<open>txt\<close>.
\<close>

definition verbose_line :: "jsval \<Rightarrow> string \<Rightarrow> event list" where
  "verbose_line verbose txt =
     (if truthy verbose
      then [ConsoleError [JStr (''Module load hook: transform ['' @ txt @ '']'')]]
      else [])"

text \<open>
  Lines 22 to 24, the first statement of the closure. The file name is converted to
  text only when \<^verbatim>\<open>verbose\<close> is truthy, and the conversion may throw.
\<close>

definition verbose_log :: "host \<Rightarrow> jsval \<Rightarrow> jsval \<Rightarrow> event list outcome" where
  "verbose_log h verbose filename =
     (if truthy verbose
      then (case String_js h filename of
              Throws e \<Rightarrow> Throws e
            | Returns txt \<Rightarrow> Returns (verbose_line verbose txt))
      else Returns [])"

text \<open>
  \<open>transformFn h transformer verbose\<close> is the closure that \<^verbatim>\<open>transformFn\<close> returns.
  In the \<^verbatim>\<open>catch\<close> block the first line is written before \<^verbatim>\<open>ex.message\<close> is
  read, and that read throws when \<open>ex\<close> is \<^verbatim>\<open>null\<close> or \<^verbatim>\<open>undefined\<close>;
  \<^verbatim>\<open>String(ex)\<close> is evaluated only when \<^verbatim>\<open>ex.message\<close> is falsy, and may throw.
\<close>

definition transformFn ::
  "host \<Rightarrow> transformer \<Rightarrow> jsval \<Rightarrow> jsval \<Rightarrow> jsval \<Rightarrow> transform_result effect" where
  "transformFn h transformer verbose input filename =
     (case verbose_log h verbose filename of
        Throws e \<Rightarrow> (Throws e, [])
      | Returns ev \<Rightarrow>
          (let ev0 = ev @ [TransformerCall input filename]
           in case transformer input filename of
                Returns transformed \<Rightarrow>
                  (Returns \<lparr>code = transformed, changed = True\<rparr>, ev0)
              | Throws ex \<Rightarrow>
                  (let ev1 = ev0 @ [ConsoleError [JStr ''Transformation error for'', filename,
                                                  JStr ''; return original code'']]
                   in case get_prop h ex ''message'' of
                        Throws e \<Rightarrow> (Throws e, ev1)
                      | Returns msg \<Rightarrow>
                          (case (if truthy msg then Returns msg
                                 else (case String_js h ex of
                                         Throws e \<Rightarrow> Throws e
                                       | Returns txt \<Rightarrow> Returns (JStr txt))) of
                             Throws e \<Rightarrow> (Throws e, ev1)
                           | Returns line \<Rightarrow>
                               (let ev2 = ev1 @ [ConsoleError [line]]
                                in case get_prop h ex ''stack'' of
                                     Throws e \<Rightarrow> (Throws e, ev2)
                                   | Returns st \<Rightarrow>
                                       (Returns \<lparr>code = input, changed = False\<rparr>,
                                        ev2 @ [ConsoleError [st]]))))))"

section \<open>Arguments and options\<close>

text \<open>
  An argument that the code tests before it calls it: a function, or some other value.
\<close>

datatype 'f arg = NotFunction jsval | Function 'f

fun truthy_arg :: "'f arg \<Rightarrow> bool" where
  "truthy_arg (NotFunction v) = truthy v"
| "truthy_arg (Function f) = True"

text \<open>
  The options object; a field that is absent reads as \<^verbatim>\<open>undefined\<close>
  (\<open>None\<close> for the list of extensions).
\<close>

record options =
  verbose :: jsval
  postLoadHook :: "(jsval \<Rightarrow> jsval outcome) arg"
  extensions :: "string list option"

text \<open>\<^verbatim>\<open>options = options || {}\<close>\<close>

definition or_empty :: "options option \<Rightarrow> options" where
  "or_empty opts =
     (case opts of
        None \<Rightarrow> \<lparr>verbose = JUndefined, postLoadHook = NotFunction JUndefined,
                 extensions = None\<rparr>
      | Some o' \<Rightarrow> o')"

section \<open>The state of the module\<close>

text \<open>
  What an entry point of \<^verbatim>\<open>vm\<close> currently holds: the function captured when the
  module was loaded, or the closure installed by a hook, given by the two variables it
  captures (\<open>matcher\<close> and \<open>fn\<close>).
\<close>

datatype entry =
    Original
  | Replacement matcher "jsval \<Rightarrow> jsval \<Rightarrow> transform_result effect"

text \<open>
  Modelled from the spec: the module-loader extension point (\<^verbatim>\<open>pirates.addHook\<close>) is a
  library outside this repository. The spec says of it that interception applies to "a
  configurable set of file extensions", that "for each load whose resolved absolute path
  satisfies matcher, the code is passed through the transform step before being handed to
  the loader", and that a revert handle "undoes exactly one installed hook". An installed
  hook is kept with the function and the options given to \<^verbatim>\<open>addHook\<close> and a flag set
  by its revert handle; the handle is the position of the hook in the list.
\<close>

record pirates_hook =
  ph_hook :: "jsval \<Rightarrow> jsval \<Rightarrow> jsval effect"
  ph_exts :: "string list"
  ph_matcher :: matcher
  ph_reverted :: bool

text \<open>\<^verbatim>\<open>require\<close>, with its cache: the loaded modules by file name, in insertion order.\<close>

record require_t =
  cache :: "(string \<times> jsval) list option"

text \<open>
  The process-wide state: the two entry points of \<^verbatim>\<open>vm\<close>, the module's list
  \<^verbatim>\<open>reverts\<close>, the hooks installed in the loader, and \<^verbatim>\<open>require\<close> (\<open>None\<close> where
  there is none).
\<close>

record world =
  vm_createScript :: entry
  vm_runInThisContext :: entry
  reverts :: "nat list"
  pirates :: "pirates_hook list"
  require :: "require_t option"

text \<open>The state once the module has been loaded (lines 5 to 10).\<close>

definition module_loaded :: "require_t option \<Rightarrow> world" where
  "module_loaded r =
     \<lparr>vm_createScript = Original, vm_runInThisContext = Original, reverts = [],
      pirates = [], require = r\<rparr>"

section \<open>Hooks on \<^verbatim>\<open>vm.createScript\<close> and \<^verbatim>\<open>vm.runInThisContext\<close>\<close>

definition call_originalCreateScript :: "host \<Rightarrow> jsval \<Rightarrow> jsval \<Rightarrow> jsval effect" where
  "call_originalCreateScript h input file =
     (originalCreateScript h input file, [OriginalCreateScriptCall input file])"

definition call_originalRunInThisContext :: "host \<Rightarrow> jsval \<Rightarrow> jsval \<Rightarrow> jsval effect" where
  "call_originalRunInThisContext h input file =
     (originalRunInThisContext h input file, [OriginalRunInThisContextCall input file])"

text \<open>The function that \<^verbatim>\<open>hookCreateScript\<close> assigns to \<^verbatim>\<open>vm.createScript\<close>.\<close>

definition createScript_replacement ::
  "host \<Rightarrow> matcher \<Rightarrow> (jsval \<Rightarrow> jsval \<Rightarrow> transform_result effect) \<Rightarrow>
   jsval \<Rightarrow> jsval \<Rightarrow> jsval effect" where
  "createScript_replacement h matcher fn input file =
     (case shouldHook h matcher file of
        Throws e \<Rightarrow> (Throws e, [])
      | Returns v \<Rightarrow>
          if \<not> truthy v then call_originalCreateScript h input file
          else (case fn input file of
                  (Throws e, evs) \<Rightarrow> (Throws e, evs)
                | (Returns ret, evs) \<Rightarrow>
                    (originalCreateScript h (code ret) file,
                     evs @ [OriginalCreateScriptCall (code ret) file])))"

definition hookCreateScript ::
  "host \<Rightarrow> matcher \<Rightarrow> transformer \<Rightarrow> options option \<Rightarrow> world \<Rightarrow> world" where
  "hookCreateScript h matcher transformer opts s =
     (let fn = transformFn h transformer (verbose (or_empty opts))
      in s\<lparr>vm_createScript := Replacement matcher fn\<rparr>)"

definition unhookCreateScript :: "world \<Rightarrow> world" where
  "unhookCreateScript s = s\<lparr>vm_createScript := Original\<rparr>"

text \<open>A call of \<^verbatim>\<open>vm.createScript(code, file)\<close> in state \<open>s\<close>.\<close>

definition call_createScript :: "host \<Rightarrow> world \<Rightarrow> jsval \<Rightarrow> jsval \<Rightarrow> jsval effect" where
  "call_createScript h s input file =
     (case vm_createScript s of
        Original \<Rightarrow> call_originalCreateScript h input file
      | Replacement matcher fn \<Rightarrow> createScript_replacement h matcher fn input file)"

text \<open>The function that \<^verbatim>\<open>hookRunInThisContext\<close> assigns to \<^verbatim>\<open>vm.runInThisContext\<close>.\<close>

definition runInThisContext_replacement ::
  "host \<Rightarrow> matcher \<Rightarrow> (jsval \<Rightarrow> jsval \<Rightarrow> transform_result effect) \<Rightarrow>
   jsval \<Rightarrow> jsval \<Rightarrow> jsval effect" where
  "runInThisContext_replacement h matcher fn input file =
     (case shouldHook h matcher file of
        Throws e \<Rightarrow> (Throws e, [])
      | Returns v \<Rightarrow>
          if \<not> truthy v then call_originalRunInThisContext h input file
          else (case fn input file of
                  (Throws e, evs) \<Rightarrow> (Throws e, evs)
                | (Returns ret, evs) \<Rightarrow>
                    (originalRunInThisContext h (code ret) file,
                     evs @ [OriginalRunInThisContextCall (code ret) file])))"

definition hookRunInThisContext ::
  "host \<Rightarrow> matcher \<Rightarrow> transformer \<Rightarrow> options option \<Rightarrow> world \<Rightarrow> world" where
  "hookRunInThisContext h matcher transformer opts s =
     (let fn = transformFn h transformer (verbose (or_empty opts))
      in s\<lparr>vm_runInThisContext := Replacement matcher fn\<rparr>)"

definition unhookRunInThisContext :: "world \<Rightarrow> world" where
  "unhookRunInThisContext s = s\<lparr>vm_runInThisContext := Original\<rparr>"

definition call_runInThisContext :: "host \<Rightarrow> world \<Rightarrow> jsval \<Rightarrow> jsval \<Rightarrow> jsval effect" where
  "call_runInThisContext h s input file =
     (case vm_runInThisContext s of
        Original \<Rightarrow> call_originalRunInThisContext h input file
      | Replacement matcher fn \<Rightarrow> runInThisContext_replacement h matcher fn input file)"

section \<open>Hooks on \<^verbatim>\<open>require\<close>\<close>

text \<open>
  The function that \<^verbatim>\<open>hookRequire\<close> hands to \<^verbatim>\<open>pirates.addHook\<close> (lines 71 to 77);
  \<open>plh\<close> is the variable \<^verbatim>\<open>postLoadHook\<close>, \<open>None\<close> for \<^verbatim>\<open>null\<close>.
\<close>

definition hookRequire_callback ::
  "(jsval \<Rightarrow> jsval \<Rightarrow> transform_result effect) \<Rightarrow> (jsval \<Rightarrow> jsval outcome) option \<Rightarrow>
   jsval \<Rightarrow> jsval \<Rightarrow> jsval effect" where
  "hookRequire_callback fn plh input filename =
     (case fn input filename of
        (Throws e, evs) \<Rightarrow> (Throws e, evs)
      | (Returns ret, evs) \<Rightarrow>
          (case plh of
             None \<Rightarrow> (Returns (code ret), evs)
           | Some p \<Rightarrow>
               (case p filename of
                  Throws e \<Rightarrow> (Throws e, evs @ [PostLoadHookCall filename])
                | Returns u \<Rightarrow> (Returns (code ret), evs @ [PostLoadHookCall filename]))))"

text \<open>
  Modelled from the spec: \<^verbatim>\<open>pirates.addHook(hook, {exts, matcher})\<close>, of the library
  outside this repository. It records the hook, not reverted, and returns its handle.
\<close>

definition pirates_addHook ::
  "(jsval \<Rightarrow> jsval \<Rightarrow> jsval effect) \<Rightarrow> string list \<Rightarrow> matcher \<Rightarrow> world \<Rightarrow> nat \<times> world" where
  "pirates_addHook hook exts matcher s =
     (length (pirates s),
      s\<lparr>pirates := pirates s @
           [\<lparr>ph_hook = hook, ph_exts = exts, ph_matcher = matcher, ph_reverted = False\<rparr>]\<rparr>)"

text \<open>
  Modelled from the spec: a call of the revert handle \<open>i\<close> that \<^verbatim>\<open>pirates.addHook\<close>
  returned ("undoes exactly one installed hook"); the handle of no hook undoes nothing.
\<close>

definition pirates_revert :: "nat \<Rightarrow> world \<Rightarrow> world" where
  "pirates_revert i s =
     (if i < length (pirates s)
      then s\<lparr>pirates := (pirates s)[i := (pirates s ! i)\<lparr>ph_reverted := True\<rparr>]\<rparr>
      else s)"

definition hookRequire ::
  "host \<Rightarrow> matcher \<Rightarrow> transformer \<Rightarrow> options option \<Rightarrow> world \<Rightarrow> world" where
  "hookRequire h matcher transformer opts s =
     (let opts' = or_empty opts;
          fn = transformFn h transformer (verbose opts');
          plh = (case postLoadHook opts' of
                   Function p \<Rightarrow> Some p
                 | NotFunction v \<Rightarrow> None);
          exts = (case extensions opts' of None \<Rightarrow> [''.js''] | Some es \<Rightarrow> es);
          (revert, s') = pirates_addHook (hookRequire_callback fn plh) exts matcher s
      in s'\<lparr>reverts := reverts s' @ [revert]\<rparr>)"

text \<open>
  \<^verbatim>\<open>unhookRequire\<close>: each handle of \<^verbatim>\<open>reverts\<close> is called, first to last, then the
  list is replaced by an empty one.
\<close>

fun call_reverts :: "nat list \<Rightarrow> world \<Rightarrow> event list \<times> world" where
  "call_reverts [] s = ([], s)"
| "call_reverts (r # rs) s =
     (let (evs, s') = call_reverts rs (pirates_revert r s) in (RevertCall r # evs, s'))"

definition unhookRequire :: "world \<Rightarrow> event list \<times> world" where
  "unhookRequire s =
     (let (evs, s') = call_reverts (reverts s) s in (evs, s'\<lparr>reverts := []\<rparr>))"

text \<open>
  Modelled from the spec: what the loader of the library outside this repository does
  with the installed hooks when the file \<open>filename\<close> is loaded. Each hook that is not
  reverted, whose extensions hold the file's and whose matcher accepts the resolved path,
  rewrites the code, in the order of installation ("for each load whose resolved absolute
  path satisfies matcher, the code is passed through the transform step").
\<close>

fun run_hooks :: "host \<Rightarrow> pirates_hook list \<Rightarrow> string \<Rightarrow> jsval \<Rightarrow> jsval effect" where
  "run_hooks h [] filename input = (Returns input, [])"
| "run_hooks h (p # ps) filename input =
     (if ph_reverted p then run_hooks h ps filename input
      else if extname h filename \<notin> set (ph_exts p) then run_hooks h ps filename input
      else (case ph_matcher p (resolve h filename) of
              Throws e \<Rightarrow> (Throws e, [])
            | Returns v \<Rightarrow>
                if \<not> truthy v then run_hooks h ps filename input
                else (case ph_hook p input (JStr filename) of
                        (Throws e, evs) \<Rightarrow> (Throws e, evs)
                      | (Returns c, evs) \<Rightarrow>
                          (let (r, evs') = run_hooks h ps filename c
                           in (r, evs @ evs')))))"

text \<open>
  Modelled from the spec: the load of the module \<open>filename\<close> whose file holds \<open>content\<close>;
  the code that the hooks leave is "handed to the loader", which compiles it.
\<close>

definition load_module :: "host \<Rightarrow> world \<Rightarrow> string \<Rightarrow> jsval \<Rightarrow> jsval effect" where
  "load_module h s filename content =
     (case run_hooks h (pirates s) filename content of
        (Throws e, evs) \<Rightarrow> (Throws e, evs)
      | (Returns c, evs) \<Rightarrow> (Returns c, evs @ [LoaderCompile c filename]))"

section \<open>The module cache\<close>

text \<open>\<^verbatim>\<open>delete require.cache[filename]\<close>\<close>

definition delete_key :: "string \<Rightarrow> (string \<times> jsval) list \<Rightarrow> (string \<times> jsval) list" where
  "delete_key k c = filter (\<lambda>(k', v). k' \<noteq> k) c"

text \<open>A call \<^verbatim>\<open>matcher(filename)\<close> of an argument that may be no function.\<close>

fun call_matcher :: "host \<Rightarrow> matcher arg \<Rightarrow> string \<Rightarrow> jsval outcome" where
  "call_matcher h (Function m) k = m k"
| "call_matcher h (NotFunction v) k = Throws (not_callable h v)"

text \<open>
  The \<^verbatim>\<open>forEach\<close> over \<^verbatim>\<open>Object.keys(require.cache)\<close>: the keys are taken once,
  the cache changes as the loop runs, and an exception ends the loop where it is.
\<close>

fun unload_each ::
  "host \<Rightarrow> matcher arg \<Rightarrow> string list \<Rightarrow> (string \<times> jsval) list \<Rightarrow>
   unit outcome \<times> (string \<times> jsval) list" where
  "unload_each h matcher [] c = (Returns (), c)"
| "unload_each h matcher (filename # ks) c =
     (case call_matcher h matcher filename of
        Throws e \<Rightarrow> (Throws e, c)
      | Returns v \<Rightarrow>
          unload_each h matcher ks (if truthy v then delete_key filename c else c))"

definition unloadRequireCache :: "host \<Rightarrow> matcher arg \<Rightarrow> world \<Rightarrow> unit outcome \<times> world" where
  "unloadRequireCache h matcher s =
     (if \<not> truthy_arg matcher then (Returns (), s)
      else (case require s of
              None \<Rightarrow> (Returns (), s)
            | Some r \<Rightarrow>
                (case cache r of
                   None \<Rightarrow> (Returns (), s)
                 | Some c \<Rightarrow>
                     (let (res, c') = unload_each h matcher (map fst c) c
                      in (res, s\<lparr>require := Some (r\<lparr>cache := Some c'\<rparr>)\<rparr>)))))"

section \<open>Example inputs\<close>

text \<open>
  A host, the matcher and the transformer of the spec's scenario (the path ends with
  \<^verbatim>\<open>foo.js\<close>; \<^verbatim>\<open>LOG();\<close> is put before the code), a transformer that runs
  \<^verbatim>\<open>throw null\<close>, and a post-load hook. The examples hold no number, so the host's
  text of a large number is never consulted and is left empty.
\<close>

definition example_host :: host where
  "example_host =
     \<lparr>resolve = (\<lambda>p. if take 1 p = ''/'' then p else ''/cwd/'' @ p),
      extname = (\<lambda>p. if CHR ''.'' \<in> set p
                      then CHR ''.'' # rev (takeWhile (\<lambda>c. c \<noteq> CHR ''.'') (rev p))
                      else []),
      nullish_read = (\<lambda>v p. JError ''TypeError''
                                 (''Cannot read property '' @ p @ '' of '' @
                                  (if v = JNull then ''null'' else ''undefined'')) []),
      not_callable = (\<lambda>v. JError ''TypeError'' ''matcher is not a function'' []),
      not_primitive = (\<lambda>v. JError ''TypeError'' ''Cannot convert object to primitive value'' []),
      number_text = (\<lambda>n. []),
      originalCreateScript = (\<lambda>c f. Returns (JObject [(''script'', c), (''filename'', f)])),
      originalRunInThisContext = (\<lambda>c f. Returns c)\<rparr>"

definition example_matcher :: matcher where
  "example_matcher p = Returns (JBool (take (length ''foo.js'') (rev p) = rev ''foo.js''))"

definition example_transformer :: transformer where
  "example_transformer c f =
     (case c of
        JStr src \<Rightarrow> Returns (JStr (''LOG();'' @ src))
      | _ \<Rightarrow> Throws (JError ''TypeError'' ''the code is not a string'' []))"

definition throw_null :: transformer where
  "throw_null c f = Throws JNull"

definition example_postLoadHook :: "jsval \<Rightarrow> jsval outcome" where
  "example_postLoadHook f = Returns JUndefined"

definition example_options :: options where
  "example_options =
     \<lparr>verbose = JUndefined, postLoadHook = Function example_postLoadHook, extensions = None\<rparr>"

definition example_cache :: "(string \<times> jsval) list" where
  "example_cache = [(''/a/foo.js'', JObject []), (''/a/bar.js'', JObject [])]"

definition example_world :: world where
  "example_world = module_loaded (Some \<lparr>cache = Some example_cache\<rparr>)"

section \<open>The transform step\<close>

lemma verbose_log_string: "verbose_log h vb (JStr f) = Returns (verbose_line vb f)"
  by (simp add: verbose_log_def verbose_line_def)

lemma transformFn_verbose_throws:
  "verbose_log h vb filename = Throws e \<Longrightarrow>
   transformFn h transformer vb input filename = (Throws e, [])"
  by (simp add: transformFn_def)

lemma transformFn_returns:
  assumes "verbose_log h vb filename = Returns ev"
    and "transformer input filename = Returns t"
  shows "transformFn h transformer vb input filename =
     (Returns \<lparr>code = t, changed = True\<rparr>, ev @ [TransformerCall input filename])"
  using assms by (simp add: transformFn_def)

lemma get_prop_not_nullish:
  "ex \<noteq> JNull \<Longrightarrow> ex \<noteq> JUndefined \<Longrightarrow> \<exists>v. get_prop h ex p = Returns v"
  by (cases ex) simp_all

text \<open>
  When the thrown value is neither \<^verbatim>\<open>null\<close> nor \<^verbatim>\<open>undefined\<close> and has a text
  (\<^verbatim>\<open>String(ex)\<close> returns), the step falls back to the original code after three lines
  on the error stream.
\<close>

lemma transformFn_fallback:
  assumes "verbose_log h vb filename = Returns ev"
    and "transformer input filename = Throws ex" and "ex \<noteq> JNull" and "ex \<noteq> JUndefined"
    and "String_js h ex = Returns str"
  shows "\<exists>msg st. transformFn h transformer vb input filename =
     (Returns \<lparr>code = input, changed = False\<rparr>,
      ev @
      [TransformerCall input filename,
       ConsoleError [JStr ''Transformation error for'', filename, JStr ''; return original code''],
       ConsoleError [msg], ConsoleError [st]])"
proof -
  obtain m where m: "get_prop h ex ''message'' = Returns m"
    using get_prop_not_nullish [OF assms(3,4)] by blast
  obtain st where st: "get_prop h ex ''stack'' = Returns st"
    using get_prop_not_nullish [OF assms(3,4)] by blast
  show ?thesis
    by (simp add: transformFn_def assms(1,2,5) m st)
qed

text \<open>
  A thrown object with a property \<^verbatim>\<open>toString\<close> of its own and no truthy
  \<^verbatim>\<open>message\<close> has no text: \<^verbatim>\<open>String(ex)\<close> throws inside the \<^verbatim>\<open>catch\<close> block.
\<close>

lemma transformFn_no_text:
  assumes "verbose_log h vb filename = Returns ev"
    and "transformer input filename = Throws (JObject ps)"
    and "''toString'' \<in> fst ` set ps"
    and "map_of ps ''message'' = None"
  shows "transformFn h transformer vb input filename =
     (Throws (not_primitive h (JObject ps)),
      ev @
      [TransformerCall input filename,
       ConsoleError [JStr ''Transformation error for'', filename, JStr ''; return original code'']])"
  using assms by (simp add: transformFn_def)

lemma transformFn_nullish:
  assumes "verbose_log h vb filename = Returns ev"
    and "transformer input filename = Throws ex" and "ex = JNull \<or> ex = JUndefined"
  shows "transformFn h transformer vb input filename =
     (Throws (nullish_read h ex ''message''),
      ev @
      [TransformerCall input filename,
       ConsoleError [JStr ''Transformation error for'', filename, JStr ''; return original code'']])"
  using assms by (auto simp add: transformFn_def)

text \<open>
  Claim C1. A transformer that raises should leave the original code, three lines of
  diagnostic and no exception for the caller. The code does so for a thrown value that
  is neither \<^verbatim>\<open>null\<close> nor \<^verbatim>\<open>undefined\<close> and has a text (\<open>transformFn_fallback\<close>).
  For a transformer
  that runs \<^verbatim>\<open>throw null\<close> or \<^verbatim>\<open>throw undefined\<close> the \<^verbatim>\<open>catch\<close> block itself
  fails at \<^verbatim>\<open>ex.message\<close>: the transform step returns nothing, one line only is
  written, and the \<^verbatim>\<open>TypeError\<close> reaches the caller of the replaced entry point,
  which never calls the original one.
\<close>

theorem nullish_throw_escapes_transform_step:
  assumes "transformer input (JStr f) = Throws ex" and "ex = JNull \<or> ex = JUndefined"
    and "matcher (resolve h f) = Returns v" and "truthy v"
  shows "transformFn h transformer vb input (JStr f) =
           (Throws (nullish_read h ex ''message''),
            verbose_line vb f @
            [TransformerCall input (JStr f),
             ConsoleError [JStr ''Transformation error for'', JStr f,
                           JStr ''; return original code'']])
       \<and> call_createScript h (hookCreateScript h matcher transformer opts s) input (JStr f) =
           (Throws (nullish_read h ex ''message''),
            verbose_line (verbose (or_empty opts)) f @
            [TransformerCall input (JStr f),
             ConsoleError [JStr ''Transformation error for'', JStr f,
                           JStr ''; return original code'']])
       \<and> call_runInThisContext h (hookRunInThisContext h matcher transformer opts s)
           input (JStr f) =
           (Throws (nullish_read h ex ''message''),
            verbose_line (verbose (or_empty opts)) f @
            [TransformerCall input (JStr f),
             ConsoleError [JStr ''Transformation error for'', JStr f,
                           JStr ''; return original code'']])"
proof -
  have n: "transformFn h transformer vb' input (JStr f) =
           (Throws (nullish_read h ex ''message''),
            verbose_line vb' f @
            [TransformerCall input (JStr f),
             ConsoleError [JStr ''Transformation error for'', JStr f,
                           JStr ''; return original code'']])" for vb'
    using transformFn_nullish
            [where transformer = transformer and input = input and filename = "JStr f"
               and ex = ex and h = h and vb = vb' and ev = "verbose_line vb' f"]
          assms(1,2) verbose_log_string [of h vb' f]
    by blast
  show ?thesis
    using assms(3,4)
    by (simp add: n call_createScript_def hookCreateScript_def createScript_replacement_def
          call_runInThisContext_def hookRunInThisContext_def runInThisContext_replacement_def)
qed

theorem nullish_throw_escapes_transform_step_witness:
  "throw_null (JStr ''f()'') (JStr ''/a/foo.js'') = Throws JNull
   \<and> example_matcher (resolve example_host ''/a/foo.js'') = Returns (JBool True)
   \<and> truthy (JBool True)
   \<and> transformFn example_host throw_null JUndefined (JStr ''f()'') (JStr ''/a/foo.js'') =
      (Throws (JError ''TypeError'' ''Cannot read property message of null'' []),
       [TransformerCall (JStr ''f()'') (JStr ''/a/foo.js''),
        ConsoleError [JStr ''Transformation error for'', JStr ''/a/foo.js'',
                      JStr ''; return original code'']])
   \<and> call_createScript example_host
        (hookCreateScript example_host example_matcher throw_null None (module_loaded None))
        (JStr ''f()'') (JStr ''/a/foo.js'') =
      (Throws (JError ''TypeError'' ''Cannot read property message of null'' []),
       [TransformerCall (JStr ''f()'') (JStr ''/a/foo.js''),
        ConsoleError [JStr ''Transformation error for'', JStr ''/a/foo.js'',
                      JStr ''; return original code'']])"
proof -
  have t: "throw_null (JStr ''f()'') (JStr ''/a/foo.js'') = Throws JNull"
    by (simp add: throw_null_def)
  have m: "example_matcher (resolve example_host ''/a/foo.js'') = Returns (JBool True)"
    by (simp add: example_matcher_def example_host_def)
  have v: "truthy (JBool True)" by simp
  have e: "JNull = JNull \<or> JNull = JUndefined" by simp
  show ?thesis
    using t m v
      nullish_throw_escapes_transform_step
        [where transformer = throw_null and input = "JStr ''f()''" and f = "''/a/foo.js''"
           and ex = JNull and matcher = example_matcher and h = example_host
           and v = "JBool True" and vb = JUndefined and opts = None
           and s = "module_loaded None", OF t e m v]
    by (simp add: or_empty_def verbose_line_def example_host_def)
qed

section \<open>The replaced entry points\<close>

text \<open>
  Claim C2. When the file name is a string whose resolved path the matcher accepts and
  the transformer returns \<open>t\<close>, the transform step returns \<open>t\<close> with \<open>changed\<close> set, and
  the original entry point is called once, with \<open>t\<close> and the file name, after the
  transformer; this for \<^verbatim>\<open>vm.createScript\<close> and for \<^verbatim>\<open>vm.runInThisContext\<close>.
\<close>

theorem matched_code_is_transformed:
  assumes "matcher (resolve h f) = Returns v" and "truthy v"
    and "transformer input (JStr f) = Returns t"
  shows "transformFn h transformer (verbose (or_empty opts)) input (JStr f) =
           (Returns \<lparr>code = t, changed = True\<rparr>,
            verbose_line (verbose (or_empty opts)) f @ [TransformerCall input (JStr f)])
       \<and> call_createScript h (hookCreateScript h matcher transformer opts s) input (JStr f) =
           (originalCreateScript h t (JStr f),
            verbose_line (verbose (or_empty opts)) f @
            [TransformerCall input (JStr f), OriginalCreateScriptCall t (JStr f)])
       \<and> call_runInThisContext h (hookRunInThisContext h matcher transformer opts s)
           input (JStr f) =
           (originalRunInThisContext h t (JStr f),
            verbose_line (verbose (or_empty opts)) f @
            [TransformerCall input (JStr f), OriginalRunInThisContextCall t (JStr f)])"
proof -
  have r: "transformFn h transformer vb input (JStr f) =
           (Returns \<lparr>code = t, changed = True\<rparr>,
            verbose_line vb f @ [TransformerCall input (JStr f)])" for vb
    using transformFn_returns
            [where h = h and vb = vb and filename = "JStr f" and ev = "verbose_line vb f"
               and transformer = transformer and input = input and t = t]
          assms(3) verbose_log_string [of h vb f]
    by blast
  show ?thesis
    using assms(1,2)
    by (simp add: r call_createScript_def hookCreateScript_def
         createScript_replacement_def call_runInThisContext_def hookRunInThisContext_def
         runInThisContext_replacement_def)
qed

theorem matched_code_is_transformed_witness:
  "example_matcher (resolve example_host ''/a/foo.js'') = Returns (JBool True)
   \<and> truthy (JBool True)
   \<and> example_transformer (JStr ''f()'') (JStr ''/a/foo.js'') = Returns (JStr ''LOG();f()'')
   \<and> call_createScript example_host
        (hookCreateScript example_host example_matcher example_transformer None
           (module_loaded None))
        (JStr ''f()'') (JStr ''/a/foo.js'') =
      (Returns (JObject [(''script'', JStr ''LOG();f()''), (''filename'', JStr ''/a/foo.js'')]),
       [TransformerCall (JStr ''f()'') (JStr ''/a/foo.js''),
        OriginalCreateScriptCall (JStr ''LOG();f()'') (JStr ''/a/foo.js'')])
   \<and> call_runInThisContext example_host
        (hookRunInThisContext example_host example_matcher example_transformer None
           (module_loaded None))
        (JStr ''f()'') (JStr ''/a/foo.js'') =
      (Returns (JStr ''LOG();f()''),
       [TransformerCall (JStr ''f()'') (JStr ''/a/foo.js''),
        OriginalRunInThisContextCall (JStr ''LOG();f()'') (JStr ''/a/foo.js'')])"
proof -
  have m: "example_matcher (resolve example_host ''/a/foo.js'') = Returns (JBool True)"
    by (simp add: example_matcher_def example_host_def)
  have t: "example_transformer (JStr ''f()'') (JStr ''/a/foo.js'') = Returns (JStr ''LOG();f()'')"
    by (simp add: example_transformer_def)
  have v: "truthy (JBool True)" by simp
  show ?thesis
    using m t v
      matched_code_is_transformed
        [where matcher = example_matcher and h = example_host and f = "''/a/foo.js''"
           and v = "JBool True" and transformer = example_transformer
           and input = "JStr ''f()''" and t = "JStr ''LOG();f()''" and opts = None
           and s = "module_loaded None"]
    by (simp add: or_empty_def verbose_line_def example_host_def)
qed

lemma shouldHook_non_string:
  "(\<forall>f. fname \<noteq> JStr f) \<Longrightarrow> shouldHook h matcher fname = Returns (JBool False)"
  by (cases fname) simp_all

text \<open>
  Claim C3. When the file name is not a string, or is a string whose resolved path the
  matcher returns a falsy value for, the replaced entry point does one thing: it calls
  the captured original with the code and the file name it was given. The transformer is
  not called. A file name that is not a string is matched by no matcher.
\<close>

theorem unmatched_call_is_delegated:
  assumes "(\<forall>f. fname \<noteq> JStr f) \<or>
           (\<exists>f v. fname = JStr f \<and> matcher (resolve h f) = Returns v \<and> \<not> truthy v)"
  shows "call_createScript h (hookCreateScript h matcher transformer opts s) input fname =
           (originalCreateScript h input fname, [OriginalCreateScriptCall input fname])
       \<and> call_runInThisContext h (hookRunInThisContext h matcher transformer opts s)
           input fname =
           (originalRunInThisContext h input fname, [OriginalRunInThisContextCall input fname])
       \<and> ((\<forall>f. fname \<noteq> JStr f) \<longrightarrow> shouldHook h matcher' fname = Returns (JBool False))"
proof -
  obtain v where v: "shouldHook h matcher fname = Returns v" "\<not> truthy v"
    using assms shouldHook_non_string [of fname h matcher] by auto
  show ?thesis
    by (simp add: v call_createScript_def hookCreateScript_def createScript_replacement_def
        call_originalCreateScript_def call_runInThisContext_def hookRunInThisContext_def
        runInThisContext_replacement_def call_originalRunInThisContext_def
        shouldHook_non_string)
qed

theorem unmatched_call_is_delegated_witness:
  "example_matcher (resolve example_host ''/a/bar.js'') = Returns (JBool False)
   \<and> call_createScript example_host
        (hookCreateScript example_host example_matcher example_transformer None
           (module_loaded None))
        (JStr ''f()'') (JStr ''/a/bar.js'') =
      (Returns (JObject [(''script'', JStr ''f()''), (''filename'', JStr ''/a/bar.js'')]),
       [OriginalCreateScriptCall (JStr ''f()'') (JStr ''/a/bar.js'')])
   \<and> call_runInThisContext example_host
        (hookRunInThisContext example_host (\<lambda>p. Returns (JBool True)) example_transformer None
           (module_loaded None))
        (JStr ''f()'') JUndefined =
      (Returns (JStr ''f()''), [OriginalRunInThisContextCall (JStr ''f()'') JUndefined])"
proof -
  have m: "example_matcher (resolve example_host ''/a/bar.js'') = Returns (JBool False)"
    by (simp add: example_matcher_def example_host_def)
  have a: "(\<forall>f. JStr ''/a/bar.js'' \<noteq> JStr f) \<or>
           (\<exists>f v. JStr ''/a/bar.js'' = JStr f \<and>
                  example_matcher (resolve example_host f) = Returns v \<and> \<not> truthy v)"
    using m by auto
  have b: "(\<forall>f. JUndefined \<noteq> JStr f) \<or>
           (\<exists>f v. JUndefined = JStr f \<and>
                  (\<lambda>p. Returns (JBool True)) (resolve example_host f) = Returns v \<and> \<not> truthy v)"
    by simp
  show ?thesis
    using m
      unmatched_call_is_delegated
        [where fname = "JStr ''/a/bar.js''" and matcher = example_matcher
           and h = example_host and transformer = example_transformer and opts = None
           and s = "module_loaded None" and input = "JStr ''f()''", OF a]
      unmatched_call_is_delegated
        [where fname = JUndefined and matcher = "\<lambda>p. Returns (JBool True)"
           and h = example_host and transformer = example_transformer and opts = None
           and s = "module_loaded None" and input = "JStr ''f()''", OF b]
    by (simp add: example_host_def)
qed

text \<open>
  Claim C5. \<^verbatim>\<open>unhookCreateScript\<close> and \<^verbatim>\<open>unhookRunInThisContext\<close> assign the entry
  point captured at load time, whatever was installed before: after any list of installs
  the entry point is the original one, and a call goes straight to it. On a state whose
  entry point is the original one (no hook was installed, or it was removed) they change
  nothing.
\<close>

theorem unhook_restores_original:
  "vm_createScript
     (unhookCreateScript (fold (\<lambda>(m, t, opts). hookCreateScript h m t opts) installs s)) =
     Original
   \<and> vm_runInThisContext
     (unhookRunInThisContext
        (fold (\<lambda>(m, t, opts). hookRunInThisContext h m t opts) installs s)) = Original
   \<and> call_createScript h (unhookCreateScript s) input fname =
       (originalCreateScript h input fname, [OriginalCreateScriptCall input fname])
   \<and> call_runInThisContext h (unhookRunInThisContext s) input fname =
       (originalRunInThisContext h input fname, [OriginalRunInThisContextCall input fname])
   \<and> (vm_createScript s = Original \<longrightarrow> unhookCreateScript s = s)
   \<and> (vm_runInThisContext s = Original \<longrightarrow> unhookRunInThisContext s = s)"
  by (simp add: unhookCreateScript_def unhookRunInThisContext_def call_createScript_def
        call_runInThisContext_def call_originalCreateScript_def
        call_originalRunInThisContext_def)

theorem unhook_restores_original_witness:
  "vm_createScript
     (unhookCreateScript
        (fold (\<lambda>(m, t, opts). hookCreateScript example_host m t opts)
           [(example_matcher, example_transformer, None),
            (\<lambda>p. Returns (JBool True), throw_null, None)]
           (module_loaded None))) = Original
   \<and> call_createScript example_host
       (unhookCreateScript
          (hookCreateScript example_host example_matcher example_transformer None
             (module_loaded None)))
       (JStr ''f()'') (JStr ''/a/foo.js'') =
       (Returns (JObject [(''script'', JStr ''f()''), (''filename'', JStr ''/a/foo.js'')]),
        [OriginalCreateScriptCall (JStr ''f()'') (JStr ''/a/foo.js'')])
   \<and> vm_createScript (module_loaded None) = Original
   \<and> vm_runInThisContext (module_loaded None) = Original
   \<and> unhookCreateScript (module_loaded None) = module_loaded None
   \<and> unhookRunInThisContext (module_loaded None) = module_loaded None"
  using unhook_restores_original
          [where h = example_host
             and installs = "[(example_matcher, example_transformer, None),
                              (\<lambda>p. Returns (JBool True), throw_null, None)]"
             and s = "module_loaded None"]
        unhook_restores_original
          [where h = example_host
             and s = "hookCreateScript example_host example_matcher example_transformer None
                        (module_loaded None)"
             and input = "JStr ''f()''" and fname = "JStr ''/a/foo.js''"]
  by (simp add: example_host_def module_loaded_def)

text \<open>
  Claim C6. A second \<^verbatim>\<open>hookCreateScript\<close> replaces the first: the state is the one
  the second install alone would give, a call runs the closure of the second matcher and
  transformer (the first pair occurs nowhere in it), and a call that the second matcher
  rejects goes to the original entry point.
\<close>

theorem second_install_overwrites:
  "hookCreateScript h m2 t2 o2 (hookCreateScript h m1 t1 o1 s) = hookCreateScript h m2 t2 o2 s
   \<and> call_createScript h (hookCreateScript h m2 t2 o2 (hookCreateScript h m1 t1 o1 s))
       input fname =
       createScript_replacement h m2 (transformFn h t2 (verbose (or_empty o2))) input fname
   \<and> (shouldHook h m2 fname = Returns v \<and> \<not> truthy v \<longrightarrow>
       call_createScript h (hookCreateScript h m2 t2 o2 (hookCreateScript h m1 t1 o1 s))
         input fname =
       (originalCreateScript h input fname, [OriginalCreateScriptCall input fname]))"
  by (simp add: hookCreateScript_def call_createScript_def createScript_replacement_def
       call_originalCreateScript_def)

theorem second_install_overwrites_witness:
  "shouldHook example_host example_matcher (JStr ''/a/bar.js'') = Returns (JBool False)
   \<and> \<not> truthy (JBool False)
   \<and> call_createScript example_host
        (hookCreateScript example_host example_matcher example_transformer None
           (hookCreateScript example_host (\<lambda>p. Returns (JBool True)) throw_null None
              (module_loaded None)))
        (JStr ''f()'') (JStr ''/a/bar.js'') =
      (Returns (JObject [(''script'', JStr ''f()''), (''filename'', JStr ''/a/bar.js'')]),
       [OriginalCreateScriptCall (JStr ''f()'') (JStr ''/a/bar.js'')])
   \<and> call_createScript example_host
        (hookCreateScript example_host example_matcher example_transformer None
           (hookCreateScript example_host (\<lambda>p. Returns (JBool True)) throw_null None
              (module_loaded None)))
        (JStr ''f()'') (JStr ''/a/foo.js'') =
      (Returns (JObject [(''script'', JStr ''LOG();f()''), (''filename'', JStr ''/a/foo.js'')]),
       [TransformerCall (JStr ''f()'') (JStr ''/a/foo.js''),
        OriginalCreateScriptCall (JStr ''LOG();f()'') (JStr ''/a/foo.js'')])"
proof -
  have m: "shouldHook example_host example_matcher (JStr ''/a/bar.js'') = Returns (JBool False)"
    by (simp add: example_matcher_def example_host_def)
  have a:
    "call_createScript example_host
        (hookCreateScript example_host example_matcher example_transformer None
           (hookCreateScript example_host (\<lambda>p. Returns (JBool True)) throw_null None
              (module_loaded None)))
        (JStr ''f()'') (JStr ''/a/bar.js'') =
      (originalCreateScript example_host (JStr ''f()'') (JStr ''/a/bar.js''),
       [OriginalCreateScriptCall (JStr ''f()'') (JStr ''/a/bar.js'')])"
    using m second_install_overwrites
            [where h = example_host and ?m2.0 = example_matcher and fname = "JStr ''/a/bar.js''"
               and v = "JBool False" and ?t2.0 = example_transformer and ?o2.0 = None
               and ?m1.0 = "\<lambda>p. Returns (JBool True)" and ?t1.0 = throw_null
               and ?o1.0 = None and s = "module_loaded None" and input = "JStr ''f()''",
             THEN conjunct2, THEN conjunct2]
    by simp
  have b:
    "call_createScript example_host
        (hookCreateScript example_host example_matcher example_transformer None
           (hookCreateScript example_host (\<lambda>p. Returns (JBool True)) throw_null None
              (module_loaded None)))
        (JStr ''f()'') (JStr ''/a/foo.js'') =
      createScript_replacement example_host example_matcher
        (transformFn example_host example_transformer (verbose (or_empty None)))
        (JStr ''f()'') (JStr ''/a/foo.js'')"
    using second_install_overwrites
            [where h = example_host and ?m2.0 = example_matcher and fname = "JStr ''/a/foo.js''"
               and ?t2.0 = example_transformer and ?o2.0 = None
               and ?m1.0 = "\<lambda>p. Returns (JBool True)" and ?t1.0 = throw_null
               and ?o1.0 = None and s = "module_loaded None" and input = "JStr ''f()''",
             THEN conjunct2, THEN conjunct1] .
  have c:
    "createScript_replacement example_host example_matcher
        (transformFn example_host example_transformer (verbose (or_empty None)))
        (JStr ''f()'') (JStr ''/a/foo.js'') =
      (Returns (JObject [(''script'', JStr ''LOG();f()''), (''filename'', JStr ''/a/foo.js'')]),
       [TransformerCall (JStr ''f()'') (JStr ''/a/foo.js''),
        OriginalCreateScriptCall (JStr ''LOG();f()'') (JStr ''/a/foo.js'')])"
    by (simp add: createScript_replacement_def example_matcher_def example_host_def
          transformFn_def example_transformer_def or_empty_def verbose_log_def)
  show ?thesis
    using m a b c by (simp add: example_host_def)
qed

section \<open>Hooks on the module loader\<close>

lemma call_reverts_events: "fst (call_reverts rs s) = map RevertCall rs"
  by (induction rs arbitrary: s) (simp_all add: split_beta)

lemma hookRequire_reverts:
  "reverts (hookRequire h m t opts s) = reverts s @ [length (pirates s)]"
  by (simp add: hookRequire_def pirates_addHook_def Let_def)

lemma hookRequire_pirates_length:
  "length (pirates (hookRequire h m t opts s)) = Suc (length (pirates s))"
  by (simp add: hookRequire_def pirates_addHook_def Let_def)

text \<open>The handles are recorded in the order of the installs.\<close>

lemma fold_hookRequire_reverts:
  "length (pirates s) = n \<Longrightarrow>
   reverts (fold (\<lambda>(m, t, opts). hookRequire h m t opts) installs s) =
     reverts s @ [n ..< n + length installs]"
proof (induction installs arbitrary: s n)
  case Nil
  then show ?case by simp
next
  case (Cons a installs)
  obtain m t opts where a: "a = (m, t, opts)" by (cases a)
  have "length (pirates (hookRequire h m t opts s)) = Suc n"
    using Cons.prems by (simp add: hookRequire_pirates_length)
  from Cons.IH [OF this]
  have "reverts (fold (\<lambda>(m, t, opts). hookRequire h m t opts) installs
                  (hookRequire h m t opts s)) =
        (reverts s @ [n]) @ [Suc n ..< Suc n + length installs]"
    using Cons.prems by (simp add: hookRequire_reverts)
  moreover have "[n ..< Suc (n + length installs)] = n # [Suc n ..< Suc (n + length installs)]"
    by (rule upt_conv_Cons) simp
  ultimately show ?case by (simp add: a del: upt_Suc)
qed

lemma call_reverts_state: "snd (call_reverts rs s) = fold pirates_revert rs s"
  by (induction rs arbitrary: s) (simp_all add: split_beta)

lemma pirates_revert_length:
  "length (pirates (pirates_revert r s)) = length (pirates s)"
  by (simp add: pirates_revert_def)

lemma pirates_revert_flag:
  "i < length (pirates s) \<Longrightarrow>
   ph_reverted (pirates (pirates_revert r s) ! i) = (i = r \<or> ph_reverted (pirates s ! i))"
  by (auto simp add: pirates_revert_def nth_list_update)

lemma fold_pirates_revert_length:
  "length (pirates (fold pirates_revert rs s)) = length (pirates s)"
  by (induction rs arbitrary: s) (simp_all add: pirates_revert_length)

lemma fold_pirates_revert_flag:
  "i < length (pirates s) \<Longrightarrow>
   ph_reverted (pirates (fold pirates_revert rs s) ! i) =
     (i \<in> set rs \<or> ph_reverted (pirates s ! i))"
proof (induction rs arbitrary: s)
  case Nil
  then show ?case by simp
next
  case (Cons r rs)
  have "i < length (pirates (pirates_revert r s))"
    using Cons.prems by (simp add: pirates_revert_length)
  from Cons.IH [OF this] show ?case
    using Cons.prems by (auto simp add: pirates_revert_flag)
qed

lemma fold_hookRequire_pirates_length:
  "length (pirates (fold (\<lambda>(m, t, opts). hookRequire h m t opts) installs s)) =
     length (pirates s) + length installs"
  by (induction installs arbitrary: s) (auto simp add: hookRequire_pirates_length)

text \<open>A hook that is reverted leaves the code of every load as it is.\<close>

lemma run_hooks_all_reverted:
  "\<forall>p \<in> set ps. ph_reverted p \<Longrightarrow> run_hooks h ps filename input = (Returns input, [])"
  by (induction ps) simp_all

lemma unhookRequire_state:
  "snd (unhookRequire s) = (fold pirates_revert (reverts s) s)\<lparr>reverts := []\<rparr>"
  using call_reverts_state [of "reverts s" s] by (simp add: unhookRequire_def split_beta)

lemma unhookRequire_after_installs_all_reverted:
  "\<forall>p \<in> set (pirates (snd (unhookRequire
       (fold (\<lambda>(m, t, opts). hookRequire h m t opts) installs (module_loaded r))))).
     ph_reverted p"
proof -
  let ?S = "fold (\<lambda>(m, t, opts). hookRequire h m t opts) installs (module_loaded r)"
  have len: "length (pirates ?S) = length installs"
    using fold_hookRequire_pirates_length [of h installs "module_loaded r"]
    by (simp add: module_loaded_def)
  have rev: "reverts ?S = [0 ..< length installs]"
    using fold_hookRequire_reverts [of "module_loaded r" 0 h installs]
    by (simp add: module_loaded_def)
  have ps: "pirates (snd (unhookRequire ?S)) = pirates (fold pirates_revert (reverts ?S) ?S)"
    by (simp add: unhookRequire_state)
  have "ph_reverted (pirates (fold pirates_revert (reverts ?S) ?S) ! i)"
    if "i < length installs" for i
    using that fold_pirates_revert_flag [of i ?S "reverts ?S"] len rev by simp
  moreover have "length (pirates (fold pirates_revert (reverts ?S) ?S)) = length installs"
    using len by (simp add: fold_pirates_revert_length)
  ultimately show ?thesis
    unfolding ps by (simp add: all_set_conv_all_nth)
qed

text \<open>
  Claim C7. \<^verbatim>\<open>unhookRequire\<close> calls every recorded handle, in the order of the list,
  which is the order of the installs (the \<open>i\<close>-th \<^verbatim>\<open>hookRequire\<close> after load records
  the handle of the \<open>i\<close>-th hook), and leaves the list empty: the state afterwards is the
  one that the calls of the handles, first to last, lead to, with an empty list. With an
  empty list it calls nothing and changes nothing, so a second \<^verbatim>\<open>unhookRequire\<close> is a
  no-op. After the installs and one \<^verbatim>\<open>unhookRequire\<close>, every load compiles the content
  of the file as it is.
\<close>

theorem unhookRequire_reverts_in_order:
  "fst (unhookRequire s) = map RevertCall (reverts s)
   \<and> snd (unhookRequire s) = (fold pirates_revert (reverts s) s)\<lparr>reverts := []\<rparr>
   \<and> reverts (snd (unhookRequire s)) = []
   \<and> (reverts s = [] \<longrightarrow> unhookRequire s = ([], s))
   \<and> unhookRequire (snd (unhookRequire s)) = ([], snd (unhookRequire s))
   \<and> reverts (fold (\<lambda>(m, t, opts). hookRequire h m t opts) installs (module_loaded r)) =
       [0 ..< length installs]
   \<and> fst (unhookRequire
            (fold (\<lambda>(m, t, opts). hookRequire h m t opts) installs (module_loaded r))) =
       map RevertCall [0 ..< length installs]
   \<and> load_module h
        (snd (unhookRequire
           (fold (\<lambda>(m, t, opts). hookRequire h m t opts) installs (module_loaded r))))
        filename content =
       (Returns content, [LoaderCompile content filename])"
proof -
  have a: "fst (unhookRequire s') = map RevertCall (reverts s')" for s'
    using call_reverts_events [of "reverts s'" s'] by (simp add: unhookRequire_def split_beta)
  have b: "reverts (snd (unhookRequire s)) = []"
    by (simp add: unhookRequire_def split_beta)
  have c: "reverts s' = [] \<Longrightarrow> unhookRequire s' = ([], s')" for s'
    by (simp add: unhookRequire_def)
  have d: "unhookRequire (snd (unhookRequire s)) = ([], snd (unhookRequire s))"
    using c [OF b] .
  have e: "reverts (fold (\<lambda>(m, t, opts). hookRequire h m t opts) installs (module_loaded r)) =
       [0 ..< length installs]"
    using fold_hookRequire_reverts [of "module_loaded r" 0 h installs]
    by (simp add: module_loaded_def)
  have f: "load_module h
        (snd (unhookRequire
           (fold (\<lambda>(m, t, opts). hookRequire h m t opts) installs (module_loaded r))))
        filename content =
       (Returns content, [LoaderCompile content filename])"
    using run_hooks_all_reverted [OF unhookRequire_after_installs_all_reverted,
            of h h installs r filename content]
    by (simp add: load_module_def)
  show ?thesis using a [of s] a [of "fold (\<lambda>(m, t, opts). hookRequire h m t opts) installs
      (module_loaded r)"] b c [of s] d e f unhookRequire_state [of s] by simp
qed

theorem unhookRequire_reverts_in_order_witness:
  "fst (unhookRequire
          (fold (\<lambda>(m, t, opts). hookRequire example_host m t opts)
             [(example_matcher, example_transformer, None),
              (example_matcher, example_transformer, Some example_options)]
             (module_loaded None))) = [RevertCall 0, RevertCall 1]
   \<and> reverts (snd (unhookRequire
          (fold (\<lambda>(m, t, opts). hookRequire example_host m t opts)
             [(example_matcher, example_transformer, None),
              (example_matcher, example_transformer, Some example_options)]
             (module_loaded None)))) = []
   \<and> map ph_reverted (pirates (snd (unhookRequire
          (fold (\<lambda>(m, t, opts). hookRequire example_host m t opts)
             [(example_matcher, example_transformer, None),
              (example_matcher, example_transformer, Some example_options)]
             (module_loaded None))))) = [True, True]
   \<and> load_module example_host
        (fold (\<lambda>(m, t, opts). hookRequire example_host m t opts)
             [(example_matcher, example_transformer, None),
              (example_matcher, example_transformer, Some example_options)]
             (module_loaded None))
        ''/a/foo.js'' (JStr ''f()'') =
      (Returns (JStr ''LOG();LOG();f()''),
       [TransformerCall (JStr ''f()'') (JStr ''/a/foo.js''),
        TransformerCall (JStr ''LOG();f()'') (JStr ''/a/foo.js''),
        PostLoadHookCall (JStr ''/a/foo.js''),
        LoaderCompile (JStr ''LOG();LOG();f()'') ''/a/foo.js''])
   \<and> load_module example_host
        (snd (unhookRequire
           (fold (\<lambda>(m, t, opts). hookRequire example_host m t opts)
             [(example_matcher, example_transformer, None),
              (example_matcher, example_transformer, Some example_options)]
             (module_loaded None))))
        ''/a/foo.js'' (JStr ''f()'') =
      (Returns (JStr ''f()''), [LoaderCompile (JStr ''f()'') ''/a/foo.js''])
   \<and> reverts (module_loaded None) = []
   \<and> unhookRequire (module_loaded None) = ([], module_loaded None)"
proof -
  let ?S = "fold (\<lambda>(m, t, opts). hookRequire example_host m t opts)
             [(example_matcher, example_transformer, None),
              (example_matcher, example_transformer, Some example_options)]
             (module_loaded None)"
  have r: "reverts (module_loaded None) = []"
    by (simp add: module_loaded_def)
  have u: "[0 ..< length [(example_matcher, example_transformer, None :: options option),
                          (example_matcher, example_transformer, Some example_options)]] =
           [0, 1]"
    by (simp add: upt_rec)
  note th = unhookRequire_reverts_in_order
        [where s = ?S and h = example_host
           and installs = "[(example_matcher, example_transformer, None),
              (example_matcher, example_transformer, Some example_options)]"
           and r = None and filename = "''/a/foo.js''" and content = "JStr ''f()''"]
  have rv: "reverts ?S = [0, 1]"
    using th [THEN conjunct2, THEN conjunct2, THEN conjunct2, THEN conjunct2, THEN conjunct2,
              THEN conjunct1] u
    by simp
  have st: "snd (unhookRequire ?S) = (fold pirates_revert [0, 1] ?S)\<lparr>reverts := []\<rparr>"
    using th [THEN conjunct2, THEN conjunct1] rv by simp
  have fl: "map ph_reverted (pirates (snd (unhookRequire ?S))) = [True, True]"
    unfolding st
    by (simp add: hookRequire_def pirates_addHook_def module_loaded_def pirates_revert_def
          Let_def or_empty_def example_options_def)
  have before: "load_module example_host ?S ''/a/foo.js'' (JStr ''f()'') =
      (Returns (JStr ''LOG();LOG();f()''),
       [TransformerCall (JStr ''f()'') (JStr ''/a/foo.js''),
        TransformerCall (JStr ''LOG();f()'') (JStr ''/a/foo.js''),
        PostLoadHookCall (JStr ''/a/foo.js''),
        LoaderCompile (JStr ''LOG();LOG();f()'') ''/a/foo.js''])"
    by (simp add: load_module_def hookRequire_def pirates_addHook_def module_loaded_def
          or_empty_def example_options_def example_host_def example_matcher_def
          hookRequire_callback_def transformFn_def verbose_log_def example_transformer_def
          example_postLoadHook_def)
  have ev: "fst (unhookRequire ?S) = [RevertCall 0, RevertCall 1]"
    using th [THEN conjunct1] rv by simp
  have em: "reverts (snd (unhookRequire ?S)) = []"
    using th [THEN conjunct2, THEN conjunct2, THEN conjunct1] .
  have after: "load_module example_host (snd (unhookRequire ?S)) ''/a/foo.js'' (JStr ''f()'') =
      (Returns (JStr ''f()''), [LoaderCompile (JStr ''f()'') ''/a/foo.js''])"
    using th [THEN conjunct2, THEN conjunct2, THEN conjunct2, THEN conjunct2, THEN conjunct2,
              THEN conjunct2, THEN conjunct2] .
  have noop: "unhookRequire (module_loaded None) = ([], module_loaded None)"
    using r
      unhookRequire_reverts_in_order
        [where s = "module_loaded None" and h = example_host and installs = "[]" and r = None,
         THEN conjunct2, THEN conjunct2, THEN conjunct2, THEN conjunct1]
    by simp
  show ?thesis
    using ev em fl before after r noop by (intro conjI)
qed

lemma postLoadHook_call_follows_transformer_call:
  assumes "hookRequire_callback (transformFn h t vb) plh input filename = (res, evs)"
    and "PostLoadHookCall x \<in> set evs"
  shows "TransformerCall input filename \<in> set evs"
  using assms
  by (auto simp add: hookRequire_callback_def transformFn_def Let_def
        split: outcome.splits option.splits prod.splits)

text \<open>
  Claim C4. The post-load hook should run after every load, matched or not. In
  \<^verbatim>\<open>hookRequire\<close> the only call of \<^verbatim>\<open>postLoadHook\<close> is inside the function handed
  to the loader together with the matcher, after the transform step
  (\<open>postLoadHook_call_follows_transformer_call\<close>); the loader runs that function for the
  files the matcher accepts. So the load of a file that the matcher rejects compiles the
  content as it is and the post-load hook is not called.
\<close>

theorem postLoadHook_not_called_when_unmatched:
  assumes "matcher (resolve h filename) = Returns v" and "\<not> truthy v"
  shows "load_module h
           (hookRequire h matcher t
              (Some \<lparr>verbose = vb, postLoadHook = Function plh, extensions = exts\<rparr>)
              (module_loaded r))
           filename content =
         (Returns content, [LoaderCompile content filename])"
  using assms
  by (simp add: load_module_def hookRequire_def pirates_addHook_def module_loaded_def
        or_empty_def)

theorem postLoadHook_not_called_when_unmatched_witness:
  "example_matcher (resolve example_host ''/a/bar.js'') = Returns (JBool False)
   \<and> \<not> truthy (JBool False)
   \<and> load_module example_host
        (hookRequire example_host example_matcher example_transformer (Some example_options)
           (module_loaded None))
        ''/a/bar.js'' (JStr ''f()'') =
      (Returns (JStr ''f()''), [LoaderCompile (JStr ''f()'') ''/a/bar.js''])
   \<and> load_module example_host
        (hookRequire example_host example_matcher example_transformer (Some example_options)
           (module_loaded None))
        ''/a/foo.js'' (JStr ''f()'') =
      (Returns (JStr ''LOG();f()''),
       [TransformerCall (JStr ''f()'') (JStr ''/a/foo.js''),
        PostLoadHookCall (JStr ''/a/foo.js''),
        LoaderCompile (JStr ''LOG();f()'') ''/a/foo.js''])"
proof -
  have m: "example_matcher (resolve example_host ''/a/bar.js'') = Returns (JBool False)"
    by (simp add: example_matcher_def example_host_def)
  have n: "\<not> truthy (JBool False)" by simp
  have a: "load_module example_host
        (hookRequire example_host example_matcher example_transformer (Some example_options)
           (module_loaded None))
        ''/a/bar.js'' (JStr ''f()'') =
      (Returns (JStr ''f()''), [LoaderCompile (JStr ''f()'') ''/a/bar.js''])"
    using postLoadHook_not_called_when_unmatched
            [where matcher = example_matcher and h = example_host and filename = "''/a/bar.js''"
               and v = "JBool False" and t = example_transformer and vb = JUndefined
               and plh = example_postLoadHook and exts = None and r = None
               and content = "JStr ''f()''", OF m n]
    by (simp add: example_options_def)
  have b: "load_module example_host
        (hookRequire example_host example_matcher example_transformer (Some example_options)
           (module_loaded None))
        ''/a/foo.js'' (JStr ''f()'') =
      (Returns (JStr ''LOG();f()''),
       [TransformerCall (JStr ''f()'') (JStr ''/a/foo.js''),
        PostLoadHookCall (JStr ''/a/foo.js''),
        LoaderCompile (JStr ''LOG();f()'') ''/a/foo.js''])"
    by (simp add: load_module_def hookRequire_def pirates_addHook_def module_loaded_def
          or_empty_def example_options_def example_host_def example_matcher_def
          hookRequire_callback_def transformFn_def verbose_log_def example_transformer_def
          example_postLoadHook_def)
  show ?thesis using m n a b by simp
qed

lemma postLoadHook_after_transform:
  assumes "verbose_log h vb filename = Returns ev"
    and "t input filename = Returns c" and "plh filename = Returns u"
  shows "hookRequire_callback (transformFn h t vb) (Some plh) input filename =
     (Returns c, ev @ [TransformerCall input filename, PostLoadHookCall filename])"
  using assms by (simp add: hookRequire_callback_def transformFn_def)

text \<open>
  When the transformer throws a value that is neither \<^verbatim>\<open>null\<close> nor \<^verbatim>\<open>undefined\<close>
  and has a text, the post-load hook is called last, after the transformer and the three
  lines of the fallback, and the original code goes to the loader.
\<close>

lemma postLoadHook_after_fallback:
  assumes "verbose_log h vb filename = Returns ev"
    and "t input filename = Throws ex" and "ex \<noteq> JNull" and "ex \<noteq> JUndefined"
    and "String_js h ex = Returns str"
    and "plh filename = Returns u"
  shows "\<exists>msg st. hookRequire_callback (transformFn h t vb) (Some plh) input filename =
     (Returns input,
      ev @
      [TransformerCall input filename,
       ConsoleError [JStr ''Transformation error for'', filename, JStr ''; return original code''],
       ConsoleError [msg], ConsoleError [st], PostLoadHookCall filename])"
proof -
  obtain msg st where "transformFn h t vb input filename =
     (Returns \<lparr>code = input, changed = False\<rparr>,
      ev @
      [TransformerCall input filename,
       ConsoleError [JStr ''Transformation error for'', filename, JStr ''; return original code''],
       ConsoleError [msg], ConsoleError [st]])"
    using transformFn_fallback
            [where transformer = t and input = input and filename = filename and ex = ex
               and h = h and vb = vb and ev = ev and str = str]
          assms(1-5)
    by blast
  then show ?thesis
    by (simp add: hookRequire_callback_def assms(6))
qed

text \<open>
  Claim C9. The post-load hook should still be called when the transformer raised. It is
  (\<open>postLoadHook_after_fallback\<close>) unless the \<^verbatim>\<open>catch\<close> block itself throws, as it
  does when the transformer ran \<^verbatim>\<open>throw null\<close> or \<^verbatim>\<open>throw undefined\<close>: then the
  transform step throws at \<^verbatim>\<open>ex.message\<close>, the function handed to the loader ends
  there, and the post-load hook is not called. (When the verbose line cannot be written
  the step has thrown before, and the hook is not called either.)
\<close>

theorem nullish_throw_skips_postLoadHook:
  assumes "t input filename = Throws ex" and "ex = JNull \<or> ex = JUndefined"
  shows "hookRequire_callback (transformFn h t vb) (Some plh) input filename =
     (case verbose_log h vb filename of
        Throws e \<Rightarrow> (Throws e, [])
      | Returns ev \<Rightarrow>
          (Throws (nullish_read h ex ''message''),
           ev @
           [TransformerCall input filename,
            ConsoleError [JStr ''Transformation error for'', filename,
                          JStr ''; return original code'']]))"
proof (cases "verbose_log h vb filename")
  case (Returns ev)
  have "transformFn h t vb input filename =
     (Throws (nullish_read h ex ''message''),
      ev @
      [TransformerCall input filename,
       ConsoleError [JStr ''Transformation error for'', filename,
                     JStr ''; return original code'']])"
    using transformFn_nullish
            [where transformer = t and input = input and filename = filename
               and ex = ex and h = h and vb = vb and ev = ev]
          assms Returns
    by blast
  then show ?thesis
    by (simp add: hookRequire_callback_def Returns)
next
  case (Throws e)
  then show ?thesis
    by (simp add: hookRequire_callback_def transformFn_verbose_throws)
qed

theorem nullish_throw_skips_postLoadHook_witness:
  "throw_null (JStr ''f()'') (JStr ''/a/foo.js'') = Throws JNull
   \<and> hookRequire_callback (transformFn example_host throw_null JUndefined)
       (Some example_postLoadHook) (JStr ''f()'') (JStr ''/a/foo.js'') =
     (Throws (JError ''TypeError'' ''Cannot read property message of null'' []),
      [TransformerCall (JStr ''f()'') (JStr ''/a/foo.js''),
       ConsoleError [JStr ''Transformation error for'', JStr ''/a/foo.js'',
                     JStr ''; return original code'']])
   \<and> load_module example_host
        (hookRequire example_host example_matcher throw_null (Some example_options)
           (module_loaded None))
        ''/a/foo.js'' (JStr ''f()'') =
     (Throws (JError ''TypeError'' ''Cannot read property message of null'' []),
      [TransformerCall (JStr ''f()'') (JStr ''/a/foo.js''),
       ConsoleError [JStr ''Transformation error for'', JStr ''/a/foo.js'',
                     JStr ''; return original code'']])"
proof -
  have t: "throw_null (JStr ''f()'') (JStr ''/a/foo.js'') = Throws JNull"
    by (simp add: throw_null_def)
  have e: "JNull = JNull \<or> JNull = JUndefined" by simp
  have a: "hookRequire_callback (transformFn example_host throw_null JUndefined)
     (Some example_postLoadHook) (JStr ''f()'') (JStr ''/a/foo.js'') =
     (Throws (JError ''TypeError'' ''Cannot read property message of null'' []),
      [TransformerCall (JStr ''f()'') (JStr ''/a/foo.js''),
       ConsoleError [JStr ''Transformation error for'', JStr ''/a/foo.js'',
                     JStr ''; return original code'']])"
    using nullish_throw_skips_postLoadHook
            [where t = throw_null and ex = JNull and h = example_host and vb = JUndefined
               and plh = example_postLoadHook and input = "JStr ''f()''"
               and filename = "JStr ''/a/foo.js''", OF t e]
    by (simp add: verbose_log_def example_host_def)
  show ?thesis
    using t a
    by (simp add: load_module_def hookRequire_def pirates_addHook_def module_loaded_def
          or_empty_def example_options_def example_matcher_def)
      (simp add: example_host_def)
qed

section \<open>Eviction from the module cache\<close>

lemma unload_each_total:
  "\<forall>k \<in> set ks. \<exists>v. m k = Returns v \<Longrightarrow>
   unload_each h (Function m) ks c =
     (Returns (), filter (\<lambda>(k, v). \<not> (k \<in> set ks \<and> (\<exists>w. m k = Returns w \<and> truthy w))) c)"
proof (induction ks arbitrary: c)
  case Nil
  then show ?case by simp
next
  case (Cons k ks)
  then obtain v where v: "m k = Returns v" by auto
  have "unload_each h (Function m) (k # ks) c =
        unload_each h (Function m) ks (if truthy v then delete_key k c else c)"
    by (simp add: v)
  also have "\<dots> =
      (Returns (), filter (\<lambda>(k, v). \<not> (k \<in> set ks \<and> (\<exists>w. m k = Returns w \<and> truthy w)))
                     (if truthy v then delete_key k c else c))"
    using Cons by simp
  also have "filter (\<lambda>(k, v). \<not> (k \<in> set ks \<and> (\<exists>w. m k = Returns w \<and> truthy w)))
               (if truthy v then delete_key k c else c) =
             filter (\<lambda>(k', v). \<not> (k' \<in> set (k # ks) \<and> (\<exists>w. m k' = Returns w \<and> truthy w))) c"
    using v by (auto simp add: delete_key_def intro!: filter_cong)
  finally show ?case .
qed

text \<open>
  Claim C8. For a matcher that is a function and returns on every key of the cache,
  \<^verbatim>\<open>unloadRequireCache\<close> returns and leaves in the cache the entries whose key the
  matcher gives a falsy value for, each with its module, in their order: the entries
  whose key satisfies the matcher are the ones deleted. Without \<^verbatim>\<open>require\<close> or
  without its cache, nothing changes, whatever the argument.
\<close>

theorem unloadRequireCache_deletes_matching:
  "(require s = Some rq \<and> cache rq = Some c \<and> (\<forall>k \<in> set (map fst c). \<exists>v. m k = Returns v) \<longrightarrow>
      unloadRequireCache h (Function m) s =
        (Returns (),
         s\<lparr>require := Some (rq\<lparr>cache :=
              Some (filter (\<lambda>(k, v). \<not> (\<exists>w. m k = Returns w \<and> truthy w)) c)\<rparr>)\<rparr>))
   \<and> (require s = None \<or> (\<exists>rq'. require s = Some rq' \<and> cache rq' = None) \<longrightarrow>
      unloadRequireCache h matcher s = (Returns (), s))"
proof (intro conjI impI)
  assume a: "require s = Some rq \<and> cache rq = Some c \<and>
             (\<forall>k \<in> set (map fst c). \<exists>v. m k = Returns v)"
  have "filter (\<lambda>(k, v). \<not> (k \<in> set (map fst c) \<and> (\<exists>w. m k = Returns w \<and> truthy w))) c =
        filter (\<lambda>(k, v). \<not> (\<exists>w. m k = Returns w \<and> truthy w)) c"
    by (rule filter_cong) force+
  moreover have "unload_each h (Function m) (map fst c) c =
     (Returns (),
      filter (\<lambda>(k, v). \<not> (k \<in> set (map fst c) \<and> (\<exists>w. m k = Returns w \<and> truthy w))) c)"
    using a unload_each_total [of "map fst c" m h c] by blast
  ultimately show "unloadRequireCache h (Function m) s =
        (Returns (),
         s\<lparr>require := Some (rq\<lparr>cache :=
              Some (filter (\<lambda>(k, v). \<not> (\<exists>w. m k = Returns w \<and> truthy w)) c)\<rparr>)\<rparr>)"
    using a by (simp add: unloadRequireCache_def)
next
  assume "require s = None \<or> (\<exists>rq'. require s = Some rq' \<and> cache rq' = None)"
  then show "unloadRequireCache h matcher s = (Returns (), s)"
    by (auto simp add: unloadRequireCache_def)
qed

theorem unloadRequireCache_deletes_matching_witness:
  "require example_world = Some \<lparr>cache = Some example_cache\<rparr>
   \<and> example_matcher ''/a/foo.js'' = Returns (JBool True)
   \<and> example_matcher ''/a/bar.js'' = Returns (JBool False)
   \<and> unloadRequireCache example_host (Function example_matcher) example_world =
       (Returns (),
        example_world\<lparr>require := Some \<lparr>cache = Some [(''/a/bar.js'', JObject [])]\<rparr>\<rparr>)
   \<and> unloadRequireCache example_host (Function example_matcher) (module_loaded None) =
       (Returns (), module_loaded None)"
proof -
  have r: "require example_world = Some \<lparr>cache = Some example_cache\<rparr>"
    by (simp add: example_world_def module_loaded_def)
  have c: "cache \<lparr>cache = Some example_cache\<rparr> = Some example_cache" by simp
  have f: "example_matcher ''/a/foo.js'' = Returns (JBool True)"
    by (simp add: example_matcher_def)
  have b: "example_matcher ''/a/bar.js'' = Returns (JBool False)"
    by (simp add: example_matcher_def)
  have t: "\<forall>k \<in> set (map fst example_cache). \<exists>v. example_matcher k = Returns v"
    by (simp add: example_matcher_def)
  have n: "require (module_loaded None) = None"
    by (simp add: module_loaded_def)
  have "unloadRequireCache example_host (Function example_matcher) example_world =
       (Returns (),
        example_world\<lparr>require := Some (\<lparr>cache = Some example_cache\<rparr>\<lparr>cache :=
          Some (filter (\<lambda>(k, v). \<not> (\<exists>w. example_matcher k = Returns w \<and> truthy w))
                  example_cache)\<rparr>)\<rparr>)"
    using r c t
      unloadRequireCache_deletes_matching
        [where s = example_world and rq = "\<lparr>cache = Some example_cache\<rparr>"
           and c = example_cache and m = example_matcher and h = example_host,
         THEN conjunct1]
    by blast
  moreover have "filter (\<lambda>(k, v). \<not> (\<exists>w. example_matcher k = Returns w \<and> truthy w))
                  example_cache = [(''/a/bar.js'', JObject [])]"
    by (simp add: example_cache_def f b)
  moreover have "unloadRequireCache example_host (Function example_matcher)
                   (module_loaded None) = (Returns (), module_loaded None)"
    using n
      unloadRequireCache_deletes_matching
        [where s = "module_loaded None" and matcher = "Function example_matcher"
           and h = example_host, THEN conjunct2]
    by blast
  ultimately show ?thesis using r f b by simp
qed

text \<open>
  Claim C10. With a falsy argument (\<^verbatim>\<open>null\<close>, \<^verbatim>\<open>undefined\<close>, any falsy value)
  \<^verbatim>\<open>unloadRequireCache\<close> returns and the state, the cache with it, is unchanged.
\<close>

theorem unloadRequireCache_falsy_matcher:
  "\<not> truthy_arg matcher \<Longrightarrow> unloadRequireCache h matcher s = (Returns (), s)"
  by (simp add: unloadRequireCache_def)

theorem unloadRequireCache_falsy_matcher_witness:
  "\<not> truthy_arg (NotFunction JNull :: matcher arg)
   \<and> unloadRequireCache example_host (NotFunction JNull) example_world =
       (Returns (), example_world)
   \<and> unloadRequireCache example_host (NotFunction JUndefined) example_world =
       (Returns (), example_world)
   \<and> cache (the (require example_world)) = Some example_cache"
  using unloadRequireCache_falsy_matcher
          [where matcher = "NotFunction JNull" and h = example_host and s = example_world]
        unloadRequireCache_falsy_matcher
          [where matcher = "NotFunction JUndefined" and h = example_host and s = example_world]
  by (simp add: example_world_def module_loaded_def)

end
